theory Spec2Isabelle
  imports Main "HOL-Library.Word" "HOL-Library.Sublist"
begin

section \<open>The storage miner's run command (cmd/lotus-storage-miner/run.go)\<close>

text \<open>
  The command is one function, \<open>runCmd.Action\<close>. It talks to collaborators whose code is
  elsewhere (the full node's RPC client, the repository, the node constructor, the HTTP
  server), so the model makes every such call an event of a trace and takes the answer
  of each call from an explicit environment. Go errors are values; every
  \<open>return err\<close> of the source is a branch of the model.
\<close>

subsection \<open>Values: versions, addresses, worker statistics, errors\<close>

text \<open>
  Modelled from the spec: \<open>api.Version\<close> is declared outside this file. The source
  reads its field \<open>APIVersion\<close> and builds \<open>api.Version{APIVersion: build.APIVersion}\<close>;
  section 3 makes the protocol version an integer-like identifier that is compared by
  exact equality.
\<close>

record api_Version =
  APIVersion :: nat

text \<open>A multiaddr is kept in its text form, such as \<open>/ip4/127.0.0.1/tcp/2345\<close>.\<close>

datatype multiaddr = Multiaddr string

text \<open>
  Modelled from the spec: \<open>WorkerStats\<close> is declared outside this file. Section 3 gives
  the capacity snapshot five integer fields; the source adds, subtracts and compares them
  as Go \<open>int\<close>s, so they are 64 bits wide and read as two's complement, and \<open>+\<close> and
  \<open>-\<close> wrap around.
\<close>

record WorkerStats =
  LocalFree :: "64 word"
  LocalReserved :: "64 word"
  LocalTotal :: "64 word"
  RemotesTotal :: "64 word"
  RemotesFree :: "64 word"

text \<open>
  An error is either one that a collaborator returned (opaque, named by a text), or one
  built by \<open>xerrors.Errorf\<close> from a format string and its operands. Log lines carry
  the same operands.
\<close>

datatype err =
    External string
  | Errorf string "arg list"
and arg =
    AStr string
  | AInt "64 word"
  | AVersion api_Version
  | AErr err

datatype level = LInfo | LWarn | LError

datatype goroutine = Shutdown_goroutine | Pledge_goroutine

datatype event =
    Setenv string string
  | Call_GetFullNodeAPI
  | Call_ncloser
  | Call_Version
  | Log level string "arg list"
  | Call_SyncWait
  | Call_NewFS string
  | Call_Exists
  | Call_node_New
  | Call_NewMultiaddr string
  | Call_SetAPIEndpoint multiaddr
  | Call_APIEndpoint
  | Call_NetAddrsListen
  | Call_NetConnect "multiaddr list"
  | Call_Listen multiaddr
  | Go goroutine
  | Call_signal_Notify
  | Call_Serve multiaddr
  | Recv_sigChan
  | Call_stop
  | Call_Shutdown
  | Call_GetStorageMinerAPI
  | Call_closer
  | Call_WorkerStats
  | Call_PledgeSector

subsection \<open>The pledge goroutine (run.go, lines 179 to 215)\<close>

text \<open>
  One pass of the \<open>for\<close> body reads three things from its environment: which case of the
  \<open>select\<close> fires (\<open>ctx.Done()\<close> or the timer), what \<open>WorkerStats\<close> returns and what
  \<open>PledgeSector\<close> returns.
\<close>

datatype wakeup = Done | After

record cycle =
  wakeup :: wakeup
  WorkerStats_result :: "err + WorkerStats"
  PledgeSector_result :: "err option"

text \<open>
  The body of the \<open>for\<close> loop: the events of one pass, and whether the loop goes on
  (\<open>True\<close>) or the goroutine returns (\<open>False\<close>).
\<close>

definition pledge_body :: "cycle \<Rightarrow> event list \<times> bool" where
  "pledge_body c =
     (case wakeup c of
        Done \<Rightarrow> ([Log LInfo ''End pledge sector'' []], False)
      | After \<Rightarrow>
          (case WorkerStats_result c of
             Inl e \<Rightarrow>
               ([Call_WorkerStats, Log LError ''Pledge: WorkerStats fail: %w'' [AErr e]], False)
           | Inr wstat \<Rightarrow>
               ([Call_WorkerStats,
                 Log LInfo ''Pledge: %d/%d workers''
                   [AInt (LocalFree wstat + RemotesFree wstat),
                    AInt (LocalTotal wstat + RemotesTotal wstat - LocalReserved wstat)]]
                @ (if 0 <s LocalFree wstat + RemotesFree wstat then
                     Call_PledgeSector #
                       (case PledgeSector_result c of
                          Some e \<Rightarrow> [Log LError ''Pledge sector error: %w'' [AErr e]]
                        | None \<Rightarrow> [Log LInfo ''Success pledge sector'' []])
                   else []),
                True)))"

text \<open>
  The loop itself never ends on its own account. The list holds the environment's answers
  for the passes that happen; when it is used up the goroutine is \<open>Blocked\<close> in the
  \<open>select\<close>, and \<open>Returned\<close> says that it has left the loop for good.
\<close>

datatype status = Returned | Blocked

fun pledge_loop :: "cycle list \<Rightarrow> event list \<times> status" where
  "pledge_loop [] = ([], Blocked)"
| "pledge_loop (c # cs) =
     (case pledge_body c of
        (evs, True) \<Rightarrow> (case pledge_loop cs of (evs', st) \<Rightarrow> (evs @ evs', st))
      | (evs, False) \<Rightarrow> (evs, Returned))"

text \<open>
  The goroutine: it opens its own API client first, and the deferred \<open>closer()\<close> runs
  when the loop returns.
\<close>

definition pledge_goroutine :: "err option \<Rightarrow> cycle list \<Rightarrow> event list \<times> status" where
  "pledge_goroutine GetStorageMinerAPI_err cs =
     (case GetStorageMinerAPI_err of
        Some e \<Rightarrow>
          ([Log LInfo ''Begin pledge sector'' [], Call_GetStorageMinerAPI,
            Log LError ''Pledge: GetStorageMinerAPI fail: %w'' [AErr e]], Returned)
      | None \<Rightarrow>
          (case pledge_loop cs of
             (evs, Returned) \<Rightarrow>
               ([Log LInfo ''Begin pledge sector'' [], Call_GetStorageMinerAPI] @ evs
                  @ [Call_closer], Returned)
           | (evs, Blocked) \<Rightarrow>
               ([Log LInfo ''Begin pledge sector'' [], Call_GetStorageMinerAPI] @ evs,
                Blocked)))"

subsection \<open>The shutdown goroutine (run.go, lines 165 to 177)\<close>

datatype signal = SIGTERM | SIGINT

text \<open>
  The goroutine waits on \<open>sigChan\<close>. The list holds the signals delivered to the
  channel; with none the goroutine stays blocked in the receive, and only the first one
  is ever read. \<open>stop_err\<close> and \<open>Shutdown_err\<close> are what \<open>stop\<close> (the node's stop
  function) and \<open>srv.Shutdown\<close> return.
\<close>

definition shutdown_goroutine ::
    "err option \<Rightarrow> err option \<Rightarrow> signal list \<Rightarrow> event list \<times> status" where
  "shutdown_goroutine stop_err Shutdown_err sigs =
     (case sigs of
        [] \<Rightarrow> ([], Blocked)
      | s # _ \<Rightarrow>
          ([Recv_sigChan, Log LWarn ''Shutting down..'' [], Call_stop]
           @ (case stop_err of
                Some e \<Rightarrow> [Log LError ''graceful shutting down failed: %s'' [AErr e]]
              | None \<Rightarrow> [])
           @ [Call_Shutdown]
           @ (case Shutdown_err of
                Some e \<Rightarrow> [Log LError ''shutting down RPC server failed: %s'' [AErr e]]
              | None \<Rightarrow> [])
           @ [Log LWarn ''Graceful shutdown successful'' []],
           Returned))"

subsection \<open>The HTTP handler stack (run.go, lines 149 to 163)\<close>

record request =
  path :: string
  token :: string

datatype handler = rpcServer | ServeRemote | DefaultServeMux

datatype matcher = Path string | PathPrefix string

datatype http_event =
    Call_Verify string
  | Respond_AuthFailure
  | Respond_Redirect string
  | Respond_NotFound
  | Serve_by handler request

text \<open>The three routes, in the order in which the source registers them.\<close>

definition mux_routes :: "(matcher \<times> handler) list" where
  "mux_routes =
     [(Path ''/rpc/v0'', rpcServer),
      (PathPrefix ''/remote'', ServeRemote),
      (PathPrefix ''/'', DefaultServeMux)]"

text \<open>
  The router is gorilla/mux as \<open>mux.NewRouter()\<close> sets it up, with path cleaning on.
  Before it looks at its routes it brings the path into canonical form, and when that
  differs from the path of the request it answers with a permanent redirect to the
  canonical path and runs no handler.

  \<open>path.Clean\<close> on a path that begins with a slash, which is how the router calls it:
  the elements between the slashes are read from left to right, empty elements and
  \<open>.\<close> are dropped, \<open>..\<close> drops the element before it (and is itself dropped at the
  root), and what remains is joined again behind a leading slash.
\<close>

fun split_slash :: "string \<Rightarrow> string list" where
  "split_slash [] = [[]]"
| "split_slash (c # cs) =
     (if c = CHR ''/'' then [] # split_slash cs
      else (case split_slash cs of
              [] \<Rightarrow> [[c]]
            | e # es \<Rightarrow> (c # e) # es))"

fun clean_elements :: "string list \<Rightarrow> string list \<Rightarrow> string list" where
  "clean_elements kept [] = rev kept"
| "clean_elements kept (e # es) =
     (if e = [] \<or> e = ''.'' then clean_elements kept es
      else if e = ''..'' then
        (case kept of
           [] \<Rightarrow> clean_elements [] es
         | k # kept' \<Rightarrow> clean_elements kept' es)
      else clean_elements (e # kept) es)"

fun join_slash :: "string list \<Rightarrow> string" where
  "join_slash [] = []"
| "join_slash [e] = e"
| "join_slash (e # es) = e @ CHR ''/'' # join_slash es"

definition path_Clean :: "string \<Rightarrow> string" where
  "path_Clean p = CHR ''/'' # join_slash (clean_elements [] (split_slash p))"

text \<open>
  \<open>cleanPath\<close> of gorilla/mux: the empty path is the root, a path without a leading
  slash gets one, and a trailing slash that \<open>path.Clean\<close> removed is put back.
\<close>

definition cleanPath :: "string \<Rightarrow> string" where
  "cleanPath p =
     (if p = [] then ''/''
      else
        (let p' = (if hd p \<noteq> CHR ''/'' then CHR ''/'' # p else p);
             np = path_Clean p'
         in if last p' = CHR ''/'' \<and> np \<noteq> ''/'' then np @ ''/'' else np))"

text \<open>
  The routes are tried in registration order and the first that matches serves the
  request: \<open>Handle\<close> registers a route that matches the whole path, \<open>PathPrefix\<close> one
  that matches a leading part of it. No match is a not-found response.
\<close>

fun matches :: "matcher \<Rightarrow> string \<Rightarrow> bool" where
  "matches (Path tpl) p = (p = tpl)"
| "matches (PathPrefix tpl) p = prefix tpl p"

fun Router_Match :: "(matcher \<times> handler) list \<Rightarrow> string \<Rightarrow> handler option" where
  "Router_Match [] p = None"
| "Router_Match ((m, h) # routes) p =
     (if matches m p then Some h else Router_Match routes p)"

definition mux_ServeHTTP :: "(matcher \<times> handler) list \<Rightarrow> request \<Rightarrow> http_event list" where
  "mux_ServeHTTP routes r =
     (if cleanPath (path r) \<noteq> path r then [Respond_Redirect (cleanPath (path r))]
      else
        (case Router_Match routes (path r) of
           Some h \<Rightarrow> [Serve_by h r]
         | None \<Rightarrow> [Respond_NotFound]))"

text \<open>
  Modelled from the spec: \<open>auth.Handler.ServeHTTP\<close> (lib/auth), which the source only
  constructs. Section 4.6: it invokes the verification predicate with the request's
  credential; on failure it returns an authentication-failure response and does not
  forward the request; on success it forwards the request unmodified.
\<close>

definition auth_Handler_ServeHTTP ::
    "(string \<Rightarrow> err + string list) \<Rightarrow> (request \<Rightarrow> http_event list) \<Rightarrow> request
      \<Rightarrow> http_event list" where
  "auth_Handler_ServeHTTP Verify Next r =
     Call_Verify (token r) #
       (case Verify (token r) of
          Inl e \<Rightarrow> [Respond_AuthFailure]
        | Inr perms \<Rightarrow> Next r)"

text \<open>
  \<open>srv := &http.Server{Handler: ah}\<close> with
  \<open>ah := &auth.Handler{Verify: minerapi.AuthVerify, Next: mux.ServeHTTP}\<close>: what the
  server does with one inbound request.
\<close>

definition srv_Handler :: "(string \<Rightarrow> err + string list) \<Rightarrow> request \<Rightarrow> http_event list" where
  "srv_Handler AuthVerify r =
     auth_Handler_ServeHTTP AuthVerify (mux_ServeHTTP mux_routes) r"

subsection \<open>The command line and the collaborators' answers\<close>

text \<open>
  \<open>cli.Context\<close>: the flags given on the command line. A flag that was not given has
  the default of its declaration in \<open>Flags\<close>: \<open>enable-gpu-proving\<close> is true, the other
  boolean flags are false, \<open>api\<close> is \<open>2345\<close>, the other string flags are empty.
\<close>

record cli_Context =
  bool_flags :: "string \<rightharpoonup> bool"
  string_flags :: "string \<rightharpoonup> string"

definition cctx_Bool :: "cli_Context \<Rightarrow> string \<Rightarrow> bool" where
  "cctx_Bool cctx name =
     (case bool_flags cctx name of
        Some b \<Rightarrow> b
      | None \<Rightarrow> name = ''enable-gpu-proving'')"

definition cctx_String :: "cli_Context \<Rightarrow> string \<Rightarrow> string" where
  "cctx_String cctx name =
     (case string_flags cctx name of
        Some s \<Rightarrow> s
      | None \<Rightarrow> if name = ''api'' then ''2345'' else [])"

definition cctx_IsSet :: "cli_Context \<Rightarrow> string \<Rightarrow> bool" where
  "cctx_IsSet cctx name = (string_flags cctx name \<noteq> None \<or> bool_flags cctx name \<noteq> None)"

text \<open>
  The environment of one run: the command line, and what each collaborator answers when
  it is called. \<open>storagerepo\<close> is what \<open>cctx.String(FlagStorageRepo)\<close> returns (the flag
  is declared in another file); \<open>build_APIVersion\<close> is the constant
  \<open>build.APIVersion\<close>. \<open>persisted_endpoint\<close> is what \<open>r.APIEndpoint()\<close> answers on
  the repository as it is found on disk.
\<close>

record env =
  cctx :: cli_Context
  storagerepo :: string
  build_APIVersion :: nat
  GetFullNodeAPI_err :: "err option"
  Version_result :: "err + api_Version"
  SyncWait_err :: "err option"
  NewFS_err :: "err option"
  Exists_result :: "err + bool"
  persisted_endpoint :: "err + multiaddr"
  NewMultiaddr_result :: "string \<Rightarrow> err + multiaddr"
  SetAPIEndpoint_err :: "err option"
  construct_err :: "err option"
  NetAddrsListen_result :: "err + multiaddr list"
  NetConnect_err :: "err option"
  Listen_err :: "multiaddr \<Rightarrow> err option"
  Serve_result :: "err option"

subsection \<open>Node construction\<close>

text \<open>
  Modelled from the spec: the repository (package repo) is outside this file. Section 6
  gives it \<open>GetAPIEndpoint\<close> and \<open>SetAPIEndpoint\<close>; its state is the answer that
  \<open>APIEndpoint\<close> gives, and a successful \<open>SetAPIEndpoint\<close> replaces it.
\<close>

type_synonym repo_state = "err + multiaddr"

type_synonym invoke = "repo_state \<Rightarrow> event list \<times> err option \<times> repo_state"

datatype node_Option =
    StorageMiner
  | Online
  | Repo
  | ApplyIf bool node_Option
  | Override_SetApiEndpointKey invoke
  | Override_FullNode

text \<open>
  The function literal of lines 113 to 120, bound to \<open>node.SetApiEndpointKey\<close>: it parses
  \<open>/ip4/127.0.0.1/tcp/\<close> followed by the value of \<open>api\<close> and stores the address in
  the repository.
\<close>

definition set_api_endpoint :: "env \<Rightarrow> invoke" where
  "set_api_endpoint w lr =
     (case NewMultiaddr_result w (''/ip4/127.0.0.1/tcp/'' @ cctx_String (cctx w) ''api'') of
        Inl e \<Rightarrow>
          ([Call_NewMultiaddr (''/ip4/127.0.0.1/tcp/'' @ cctx_String (cctx w) ''api'')],
           Some e, lr)
      | Inr apima \<Rightarrow>
          (case SetAPIEndpoint_err w of
             Some e \<Rightarrow>
               ([Call_NewMultiaddr (''/ip4/127.0.0.1/tcp/'' @ cctx_String (cctx w) ''api''),
                 Call_SetAPIEndpoint apima], Some e, lr)
           | None \<Rightarrow>
               ([Call_NewMultiaddr (''/ip4/127.0.0.1/tcp/'' @ cctx_String (cctx w) ''api''),
                 Call_SetAPIEndpoint apima], None, Inr apima)))"

text \<open>
  Modelled from the spec: \<open>node.ApplyIf\<close> (package node), which the source only calls.
  Section 4.3: the constructor takes a set of override bindings, and a conditional
  binding is applied only when its condition holds.
\<close>

fun applied :: "node_Option \<Rightarrow> node_Option list" where
  "applied (ApplyIf check opt) = (if check then applied opt else [])"
| "applied opt = [opt]"

text \<open>
  Modelled from the spec: the application of the bindings that \<open>node.New\<close> was given
  (section 4.3). Only the endpoint binding acts on the repository; the first failure stops
  the construction.
\<close>

fun run_invokes :: "node_Option list \<Rightarrow> invoke" where
  "run_invokes [] lr = ([], None, lr)"
| "run_invokes (Override_SetApiEndpointKey f # opts) lr =
     (case f lr of
        (evs, Some e, lr') \<Rightarrow> (evs, Some e, lr')
      | (evs, None, lr') \<Rightarrow>
          (case run_invokes opts lr' of (evs', res, lr'') \<Rightarrow> (evs @ evs', res, lr'')))"
| "run_invokes (opt # opts) lr = run_invokes opts lr"

text \<open>
  Modelled from the spec: \<open>node.New\<close> (section 4.3). It applies the bindings whose
  condition holds and then constructs the node's subsystems, which may fail with
  \<open>internal_err\<close>. It returns the calls made, the error if any, and the repository's
  state.
\<close>

definition node_New :: "err option \<Rightarrow> node_Option list \<Rightarrow> invoke" where
  "node_New internal_err opts lr =
     (case run_invokes (concat (map applied opts)) lr of
        (evs, Some e, lr') \<Rightarrow> (Call_node_New # evs, Some e, lr')
      | (evs, None, lr') \<Rightarrow> (Call_node_New # evs, internal_err, lr'))"

subsection \<open>The command's action (run.go, lines 63 to 218)\<close>

text \<open>
  \<open>emit\<close> puts events in front of what follows; \<open>deferred\<close> runs a deferred call
  after what follows has returned.
\<close>

definition emit :: "event list \<Rightarrow> event list \<times> err option \<Rightarrow> event list \<times> err option" where
  "emit evs k = (evs @ fst k, snd k)"

definition deferred :: "event list \<Rightarrow> event list \<times> err option \<Rightarrow> event list \<times> err option" where
  "deferred evs k = (fst k @ evs, snd k)"

text \<open>
  The result is the trace of the calls made and the error returned (\<open>None\<close> for
  \<open>nil\<close>). The two goroutines are started, not run: what they do is
  \<open>shutdown_goroutine\<close> and \<open>pledge_goroutine\<close>.
\<close>

definition disable_gpu :: "env \<Rightarrow> event list" where
  "disable_gpu w =
     (if \<not> cctx_Bool (cctx w) ''enable-gpu-proving''
      then [Setenv ''BELLMAN_NO_GPU'' ''true''] else [])"

definition node_options :: "env \<Rightarrow> node_Option list" where
  "node_options w =
     [StorageMiner, Online, Repo,
      ApplyIf (cctx_IsSet (cctx w) ''api'') (Override_SetApiEndpointKey (set_api_endpoint w)),
      Override_FullNode]"

text \<open>
  Lines 86 to 90: \<open>SyncWait\<close> is called unless \<open>nosync\<close> is given; the calls made and
  the error, if any.
\<close>

definition sync_wait :: "env \<Rightarrow> event list \<times> err option" where
  "sync_wait w =
     (if \<not> cctx_Bool (cctx w) ''nosync'' then ([Call_SyncWait], SyncWait_err w)
      else ([], None))"

definition start_goroutines :: "env \<Rightarrow> event list" where
  "start_goroutines w =
     [Go Shutdown_goroutine, Call_signal_Notify]
     @ (if cctx_Bool (cctx w) ''pledge-sector'' then [Go Pledge_goroutine] else [])"

definition Action :: "env \<Rightarrow> event list \<times> err option" where
  "Action w =
     emit (disable_gpu w)
    (emit [Call_GetFullNodeAPI]
    (case GetFullNodeAPI_err w of Some e \<Rightarrow> ([], Some e) | None \<Rightarrow>
     deferred [Call_ncloser]
    (emit [Call_Version]
    (case Version_result w of Inl e \<Rightarrow> ([], Some e) | Inr v \<Rightarrow>
     if APIVersion v \<noteq> build_APIVersion w then
       ([], Some (Errorf ''lotus-daemon API version doesn't match: local: ''
                    [AVersion \<lparr>APIVersion = build_APIVersion w\<rparr>]))
     else
     emit [Log LInfo ''Checking full node sync status'' []]
    (case sync_wait w of
       (evs, Some e) \<Rightarrow> (evs, Some (Errorf ''sync wait: %w'' [AErr e]))
     | (evs, None) \<Rightarrow>
     emit evs
    (emit [Call_NewFS (storagerepo w)]
    (case NewFS_err w of Some e \<Rightarrow> ([], Some e) | None \<Rightarrow>
     emit [Call_Exists]
    (case Exists_result w of Inl e \<Rightarrow> ([], Some e) | Inr ok \<Rightarrow>
     if \<not> ok then
       ([], Some (Errorf
          ''repo at '%s' is not initialized, run 'lotus-storage-miner init' to set it up''
          [AStr (storagerepo w)]))
     else
     (case node_New (construct_err w) (node_options w) (persisted_endpoint w) of
        (evs, Some e, r) \<Rightarrow> (evs, Some e)
      | (evs, None, r) \<Rightarrow>
     emit evs
    (emit [Call_APIEndpoint]
    (case r of Inl e \<Rightarrow> ([], Some e) | Inr endpoint \<Rightarrow>
     emit [Call_NetAddrsListen]
    (case NetAddrsListen_result w of Inl e \<Rightarrow> ([], Some e) | Inr remoteAddrs \<Rightarrow>
     emit [Call_NetConnect remoteAddrs]
    (case NetConnect_err w of Some e \<Rightarrow> ([], Some e) | None \<Rightarrow>
     emit [Log LInfo ''Remote version %s'' [AVersion v], Call_Listen endpoint]
    (case Listen_err w endpoint of
       Some e \<Rightarrow> ([], Some (Errorf ''could not listen: %w'' [AErr e]))
     | None \<Rightarrow>
     emit (start_goroutines w @ [Call_Serve endpoint])
       ([], Serve_result w)))))))))))))))"

subsection \<open>Rendering a format\<close>

text \<open>
  \<open>fmt.Sprintf\<close> on string operands, for the part of it that the formats of this file
  use: \<open>%s\<close> takes the next operand, \<open>%%\<close> is a percent sign, any other character is
  copied. The result is \<open>None\<close> outside this part (another verb, or operands that do
  not match the verbs one to one).
\<close>

fun Sprintf :: "string \<Rightarrow> string list \<Rightarrow> string option" where
  "Sprintf [] [] = Some []"
| "Sprintf [] (a # as) = None"
| "Sprintf [c] as =
     (if c = CHR ''%'' then None else map_option ((#) c) (Sprintf [] as))"
| "Sprintf (c # d # fs) as =
     (if c \<noteq> CHR ''%'' then map_option ((#) c) (Sprintf (d # fs) as)
      else if d = CHR ''%'' then map_option ((#) d) (Sprintf fs as)
      else if d = CHR ''s'' then
        (case as of [] \<Rightarrow> None | a # as' \<Rightarrow> map_option ((@) a) (Sprintf fs as'))
      else None)"

subsection \<open>The bootstrap sequence as the specification words it\<close>

text \<open>
  The specification names the bootstrap steps and their order. Each call of the trace
  belongs to at most one step; log lines, the environment variable, the deferred closer
  and the start of the goroutines belong to none.
\<close>

datatype step =
    Version_check
  | Sync_wait
  | Repo_check
  | Node_construction
  | Endpoint_resolution
  | Peer_connect
  | Listen_step
  | Serve_step

fun step_index :: "step \<Rightarrow> nat" where
  "step_index Version_check = 0"
| "step_index Sync_wait = 1"
| "step_index Repo_check = 2"
| "step_index Node_construction = 3"
| "step_index Endpoint_resolution = 4"
| "step_index Peer_connect = 5"
| "step_index Listen_step = 6"
| "step_index Serve_step = 7"

fun step_of :: "event \<Rightarrow> step option" where
  "step_of Call_GetFullNodeAPI = Some Version_check"
| "step_of Call_Version = Some Version_check"
| "step_of Call_SyncWait = Some Sync_wait"
| "step_of (Call_NewFS p) = Some Repo_check"
| "step_of Call_Exists = Some Repo_check"
| "step_of Call_node_New = Some Node_construction"
| "step_of (Call_NewMultiaddr s) = Some Node_construction"
| "step_of (Call_SetAPIEndpoint a) = Some Node_construction"
| "step_of Call_APIEndpoint = Some Endpoint_resolution"
| "step_of Call_NetAddrsListen = Some Peer_connect"
| "step_of (Call_NetConnect as) = Some Peer_connect"
| "step_of (Call_Listen a) = Some Listen_step"
| "step_of (Call_Serve a) = Some Serve_step"
| "step_of e = None"

definition steps_run :: "event list \<Rightarrow> step list" where
  "steps_run evs = List.map_filter step_of evs"

text \<open>
  The steps that a run goes through when none of them fails: the sync wait is part of it
  unless \<open>nosync\<close> is given.
\<close>

definition step_plan :: "env \<Rightarrow> step list" where
  "step_plan w =
     [Version_check]
     @ (if cctx_Bool (cctx w) ''nosync'' then [] else [Sync_wait])
     @ [Repo_check, Node_construction, Endpoint_resolution, Peer_connect, Listen_step,
        Serve_step]"

text \<open>
  The address that the repository holds once the node is constructed, read from the
  environment alone: the one parsed from the \<open>api\<close> option when the option is given,
  the one found on disk otherwise.
\<close>

definition resolved_endpoint :: "env \<Rightarrow> err + multiaddr" where
  "resolved_endpoint w =
     (if cctx_IsSet (cctx w) ''api''
      then NewMultiaddr_result w (''/ip4/127.0.0.1/tcp/'' @ cctx_String (cctx w) ''api'')
      else persisted_endpoint w)"

text \<open>
  What each step answers in a given environment, in the specification's order: the error
  with which it fails, or \<open>None\<close>. Every entry is read from the environment, not from
  the action. A strictly sequential bootstrap fails with the first error of this list
  and serves only when there is none.
\<close>

definition step_outcomes :: "env \<Rightarrow> (step \<times> err option) list" where
  "step_outcomes w =
     [(Version_check, GetFullNodeAPI_err w),
      (Version_check,
         case Version_result w of
           Inl e \<Rightarrow> Some e
         | Inr v \<Rightarrow>
             if APIVersion v \<noteq> build_APIVersion w then
               Some (Errorf ''lotus-daemon API version doesn't match: local: ''
                       [AVersion \<lparr>APIVersion = build_APIVersion w\<rparr>])
             else None),
      (Sync_wait,
         if cctx_Bool (cctx w) ''nosync'' then None
         else (case SyncWait_err w of
                 Some e \<Rightarrow> Some (Errorf ''sync wait: %w'' [AErr e])
               | None \<Rightarrow> None)),
      (Repo_check, NewFS_err w),
      (Repo_check,
         case Exists_result w of
           Inl e \<Rightarrow> Some e
         | Inr ok \<Rightarrow>
             if ok then None
             else Some (Errorf
               ''repo at '%s' is not initialized, run 'lotus-storage-miner init' to set it up''
               [AStr (storagerepo w)])),
      (Node_construction,
         if cctx_IsSet (cctx w) ''api'' then
           (case NewMultiaddr_result w
                   (''/ip4/127.0.0.1/tcp/'' @ cctx_String (cctx w) ''api'') of
              Inl e \<Rightarrow> Some e
            | Inr a \<Rightarrow>
                (case SetAPIEndpoint_err w of
                   Some e \<Rightarrow> Some e
                 | None \<Rightarrow> construct_err w))
         else construct_err w),
      (Endpoint_resolution,
         case resolved_endpoint w of Inl e \<Rightarrow> Some e | Inr a \<Rightarrow> None),
      (Peer_connect, case NetAddrsListen_result w of Inl e \<Rightarrow> Some e | Inr as \<Rightarrow> None),
      (Peer_connect, NetConnect_err w),
      (Listen_step,
         case resolved_endpoint w of
           Inl e \<Rightarrow> None
         | Inr a \<Rightarrow>
             (case Listen_err w a of
                Some e \<Rightarrow> Some (Errorf ''could not listen: %w'' [AErr e])
              | None \<Rightarrow> None))]"

fun first_error :: "(step \<times> err option) list \<Rightarrow> (step \<times> err) option" where
  "first_error [] = None"
| "first_error ((s, Some e) # xs) = Some (s, e)"
| "first_error ((s, None) # xs) = first_error xs"

subsection \<open>An environment in which every call succeeds\<close>

definition example_env :: env where
  "example_env =
     \<lparr>cctx = \<lparr>bool_flags = Map.empty, string_flags = Map.empty\<rparr>,
      storagerepo = ''/data/miner'',
      build_APIVersion = 1,
      GetFullNodeAPI_err = None,
      Version_result = Inr \<lparr>APIVersion = 1\<rparr>,
      SyncWait_err = None,
      NewFS_err = None,
      Exists_result = Inr True,
      persisted_endpoint = Inr (Multiaddr ''/ip4/127.0.0.1/tcp/2345''),
      NewMultiaddr_result = (\<lambda>s. Inr (Multiaddr s)),
      SetAPIEndpoint_err = None,
      construct_err = None,
      NetAddrsListen_result = Inr [Multiaddr ''/ip4/10.0.0.1/tcp/1234''],
      NetConnect_err = None,
      Listen_err = (\<lambda>a. None),
      Serve_result = Some (External ''http: Server closed'')\<rparr>"

section \<open>Properties of the pledge loop\<close>

lemma pledge_body_events_After:
  "wakeup c = After \<Longrightarrow> WorkerStats_result c = Inr wstat \<Longrightarrow>
   pledge_body c =
     ([Call_WorkerStats,
       Log LInfo ''Pledge: %d/%d workers''
         [AInt (LocalFree wstat + RemotesFree wstat),
          AInt (LocalTotal wstat + RemotesTotal wstat - LocalReserved wstat)]]
      @ (if 0 <s LocalFree wstat + RemotesFree wstat then
           Call_PledgeSector #
             (case PledgeSector_result c of
                Some e \<Rightarrow> [Log LError ''Pledge sector error: %w'' [AErr e]]
              | None \<Rightarrow> [Log LInfo ''Success pledge sector'' []])
         else []), True)"
  by (simp add: pledge_body_def)

lemma pledge_body_query_error:
  "wakeup c = After \<Longrightarrow> WorkerStats_result c = Inl e \<Longrightarrow>
   pledge_body c =
     ([Call_WorkerStats, Log LError ''Pledge: WorkerStats fail: %w'' [AErr e]], False)"
  by (simp add: pledge_body_def)

text \<open>While the loop has not returned, the passes simply follow one another.\<close>

lemma pledge_loop_append_Blocked:
  "snd (pledge_loop pre) = Blocked \<Longrightarrow>
   pledge_loop (pre @ cs) = (fst (pledge_loop pre) @ fst (pledge_loop cs), snd (pledge_loop cs))"
proof (induction pre)
  case Nil
  then show ?case by simp
next
  case (Cons c pre)
  obtain evs b where b: "pledge_body c = (evs, b)" by (cases "pledge_body c")
  show ?case
  proof (cases b)
    case True
    with Cons b show ?thesis by (simp split: prod.splits)
  next
    case False
    with Cons.prems b show ?thesis by simp
  qed
qed

text \<open>
  The free capacity is computed in 64-bit arithmetic. For worker counts that are not
  negative and whose sum fits, the test \<open>> 0\<close> of the source is the test on the
  integers.
\<close>

lemma free_capacity_in_range:
  fixes a b :: "64 word"
  assumes "0 \<le> sint a" "0 \<le> sint b" "sint a + sint b < 2 ^ 63"
  shows "(0 <s a + b) = (0 < sint a + sint b)"
proof -
  have "sint (a + b) = sint a + sint b"
    using assms by (simp add: sint_word_add signed_take_bit_int_eq_self)
  then show ?thesis by (simp add: word_sless_alt)
qed

text \<open>
  Claim C7. In a pass of the loop whose capacity query answers with a snapshot, the line
  \<open>Pledge: free/available workers\<close> is logged with free = LocalFree + RemotesFree and
  available = LocalTotal + RemotesTotal - LocalReserved, whatever the capacity is and
  whatever the submission returns; \<open>PledgeSector\<close> is called exactly once in that pass
  when the free capacity is greater than zero and not at all otherwise, in particular
  not when the free capacity is zero.
\<close>

theorem pledge_cycle_snapshot_and_submission:
  assumes "wakeup c = After" and "WorkerStats_result c = Inr wstat"
  shows "Log LInfo ''Pledge: %d/%d workers''
           [AInt (LocalFree wstat + RemotesFree wstat),
            AInt (LocalTotal wstat + RemotesTotal wstat - LocalReserved wstat)]
           \<in> set (fst (pledge_body c))
       \<and> count_list (fst (pledge_body c)) Call_PledgeSector =
           (if 0 <s LocalFree wstat + RemotesFree wstat then 1 else 0)
       \<and> (LocalFree wstat + RemotesFree wstat = 0 \<longrightarrow>
            count_list (fst (pledge_body c)) Call_PledgeSector = 0)"
  using assms by (simp add: pledge_body_events_After split: option.splits)

theorem pledge_cycle_snapshot_and_submission_witness:
  "Log LInfo ''Pledge: %d/%d workers'' [AInt 0, AInt 5]
     \<in> set (fst (pledge_body
         \<lparr>wakeup = After,
          WorkerStats_result = Inr \<lparr>LocalFree = 0, LocalReserved = 1, LocalTotal = 4,
                                   RemotesTotal = 2, RemotesFree = 0\<rparr>,
          PledgeSector_result = None\<rparr>))
   \<and> count_list (fst (pledge_body
         \<lparr>wakeup = After,
          WorkerStats_result = Inr \<lparr>LocalFree = 0, LocalReserved = 1, LocalTotal = 4,
                                   RemotesTotal = 2, RemotesFree = 0\<rparr>,
          PledgeSector_result = None\<rparr>)) Call_PledgeSector = 0
   \<and> count_list (fst (pledge_body
         \<lparr>wakeup = After,
          WorkerStats_result = Inr \<lparr>LocalFree = 2, LocalReserved = 1, LocalTotal = 4,
                                   RemotesTotal = 2, RemotesFree = 1\<rparr>,
          PledgeSector_result = Some (External ''rpc'')\<rparr>)) Call_PledgeSector = 1"
  using pledge_cycle_snapshot_and_submission
      [of "\<lparr>wakeup = After,
           WorkerStats_result = Inr \<lparr>LocalFree = 0, LocalReserved = 1, LocalTotal = 4,
                                    RemotesTotal = 2, RemotesFree = 0\<rparr>,
           PledgeSector_result = None\<rparr>"
          "\<lparr>LocalFree = 0, LocalReserved = 1, LocalTotal = 4,
            RemotesTotal = 2, RemotesFree = 0\<rparr>"]
     pledge_cycle_snapshot_and_submission
      [of "\<lparr>wakeup = After,
           WorkerStats_result = Inr \<lparr>LocalFree = 2, LocalReserved = 1, LocalTotal = 4,
                                    RemotesTotal = 2, RemotesFree = 1\<rparr>,
           PledgeSector_result = Some (External ''rpc'')\<rparr>"
          "\<lparr>LocalFree = 2, LocalReserved = 1, LocalTotal = 4,
            RemotesTotal = 2, RemotesFree = 1\<rparr>"]
  by (simp add: word_sless_alt)

text \<open>
  Claim C1, as the specification states it, says that an error of the submission call
  ends the loop. It does not: after a pass whose \<open>PledgeSector\<close> call fails, the next
  pass queries the capacity and submits again.
\<close>

theorem pledge_submission_error_counterexample:
  "pledge_loop
     [\<lparr>wakeup = After,
       WorkerStats_result = Inr \<lparr>LocalFree = 1, LocalReserved = 0, LocalTotal = 1,
                                RemotesTotal = 0, RemotesFree = 0\<rparr>,
       PledgeSector_result = Some (External ''rpc'')\<rparr>,
      \<lparr>wakeup = After,
       WorkerStats_result = Inr \<lparr>LocalFree = 1, LocalReserved = 0, LocalTotal = 1,
                                RemotesTotal = 0, RemotesFree = 0\<rparr>,
       PledgeSector_result = None\<rparr>]
   = ([Call_WorkerStats, Log LInfo ''Pledge: %d/%d workers'' [AInt 1, AInt 1],
       Call_PledgeSector, Log LError ''Pledge sector error: %w'' [AErr (External ''rpc'')],
       Call_WorkerStats, Log LInfo ''Pledge: %d/%d workers'' [AInt 1, AInt 1],
       Call_PledgeSector, Log LInfo ''Success pledge sector'' []],
      Blocked)"
  by (simp add: pledge_body_def word_sless_alt)

text \<open>
  Claim C1, amended. Take a pass that the loop reaches (it has not returned before) and
  in which the timer fires. If the capacity query returns an error, the loop logs it and
  returns: the trace ends with that log line, and no later pass adds a query or a
  submission. If the submission call returns an error, the loop logs it and goes on with
  the next pass.
\<close>

theorem pledge_loop_error_handling:
  assumes "snd (pledge_loop pre) = Blocked" and "wakeup c = After"
  shows "(WorkerStats_result c = Inl e \<longrightarrow>
            pledge_loop (pre @ c # post) =
              (fst (pledge_loop pre)
                 @ [Call_WorkerStats, Log LError ''Pledge: WorkerStats fail: %w'' [AErr e]],
               Returned))
       \<and> (WorkerStats_result c = Inr wstat
            \<and> 0 <s LocalFree wstat + RemotesFree wstat
            \<and> PledgeSector_result c = Some e' \<longrightarrow>
            pledge_loop (pre @ c # post) =
              (fst (pledge_loop pre)
                 @ [Call_WorkerStats,
                    Log LInfo ''Pledge: %d/%d workers''
                      [AInt (LocalFree wstat + RemotesFree wstat),
                       AInt (LocalTotal wstat + RemotesTotal wstat - LocalReserved wstat)],
                    Call_PledgeSector,
                    Log LError ''Pledge sector error: %w'' [AErr e']]
                 @ fst (pledge_loop post),
               snd (pledge_loop post)))"
  using assms
  by (simp add: pledge_loop_append_Blocked pledge_body_events_After pledge_body_query_error
        split: prod.splits)

theorem pledge_loop_error_handling_witness:
  "pledge_loop
     ([\<lparr>wakeup = After,
        WorkerStats_result = Inr \<lparr>LocalFree = 0, LocalReserved = 0, LocalTotal = 1,
                                 RemotesTotal = 0, RemotesFree = 0\<rparr>,
        PledgeSector_result = None\<rparr>]
      @ \<lparr>wakeup = After, WorkerStats_result = Inl (External ''rpc''),
          PledgeSector_result = None\<rparr>
      # [\<lparr>wakeup = After,
          WorkerStats_result = Inr \<lparr>LocalFree = 1, LocalReserved = 0, LocalTotal = 1,
                                   RemotesTotal = 0, RemotesFree = 0\<rparr>,
          PledgeSector_result = None\<rparr>])
   = ([Call_WorkerStats, Log LInfo ''Pledge: %d/%d workers'' [AInt 0, AInt 1],
       Call_WorkerStats, Log LError ''Pledge: WorkerStats fail: %w'' [AErr (External ''rpc'')]],
      Returned)
   \<and> pledge_loop
     ([\<lparr>wakeup = After,
        WorkerStats_result = Inr \<lparr>LocalFree = 0, LocalReserved = 0, LocalTotal = 1,
                                 RemotesTotal = 0, RemotesFree = 0\<rparr>,
        PledgeSector_result = None\<rparr>]
      @ \<lparr>wakeup = After,
          WorkerStats_result = Inr \<lparr>LocalFree = 1, LocalReserved = 0, LocalTotal = 1,
                                   RemotesTotal = 0, RemotesFree = 0\<rparr>,
          PledgeSector_result = Some (External ''rpc'')\<rparr>
      # [])
   = ([Call_WorkerStats, Log LInfo ''Pledge: %d/%d workers'' [AInt 0, AInt 1],
       Call_WorkerStats, Log LInfo ''Pledge: %d/%d workers'' [AInt 1, AInt 1],
       Call_PledgeSector, Log LError ''Pledge sector error: %w'' [AErr (External ''rpc'')]],
      Blocked)"
proof -
  have alive:
    "snd (pledge_loop
       [\<lparr>wakeup = After,
         WorkerStats_result = Inr \<lparr>LocalFree = 0, LocalReserved = 0, LocalTotal = 1,
                                  RemotesTotal = 0, RemotesFree = 0\<rparr>,
         PledgeSector_result = None\<rparr>]) = Blocked"
    by (simp add: pledge_body_def)
  have before:
    "fst (pledge_loop
       [\<lparr>wakeup = After,
         WorkerStats_result = Inr \<lparr>LocalFree = 0, LocalReserved = 0, LocalTotal = 1,
                                  RemotesTotal = 0, RemotesFree = 0\<rparr>,
         PledgeSector_result = None\<rparr>])
     = [Call_WorkerStats, Log LInfo ''Pledge: %d/%d workers'' [AInt 0, AInt 1]]"
    by (simp add: pledge_body_def)
  show ?thesis
    using pledge_loop_error_handling
        [OF alive, of
          "\<lparr>wakeup = After, WorkerStats_result = Inl (External ''rpc''),
            PledgeSector_result = None\<rparr>"
          "External ''rpc''"
          "[\<lparr>wakeup = After,
             WorkerStats_result = Inr \<lparr>LocalFree = 1, LocalReserved = 0, LocalTotal = 1,
                                      RemotesTotal = 0, RemotesFree = 0\<rparr>,
             PledgeSector_result = None\<rparr>]"]
       pledge_loop_error_handling
        [OF alive, of
          "\<lparr>wakeup = After,
            WorkerStats_result = Inr \<lparr>LocalFree = 1, LocalReserved = 0, LocalTotal = 1,
                                     RemotesTotal = 0, RemotesFree = 0\<rparr>,
            PledgeSector_result = Some (External ''rpc'')\<rparr>"
          _ "[]"
          "\<lparr>LocalFree = 1, LocalReserved = 0, LocalTotal = 1,
            RemotesTotal = 0, RemotesFree = 0\<rparr>"
          "External ''rpc''"]
       before
    by (simp add: word_sless_alt)
qed

section \<open>Properties of the shutdown goroutine\<close>

text \<open>
  Claim C5. When a signal arrives, the goroutine calls the node's \<open>stop\<close> and then
  \<open>srv.Shutdown\<close>, each exactly once and in this order, whatever \<open>stop\<close> returns: when
  \<open>stop\<close> fails, its error is logged between the two calls and the listener is shut
  down all the same.
\<close>

theorem shutdown_node_before_listener:
  "\<exists>pre mid post.
     fst (shutdown_goroutine stop_err Shutdown_err (s # sigs))
       = pre @ [Call_stop] @ mid @ [Call_Shutdown] @ post
     \<and> Call_stop \<notin> set (pre @ mid @ post)
     \<and> Call_Shutdown \<notin> set (pre @ mid @ post)
     \<and> (\<forall>e. stop_err = Some e \<longrightarrow>
           mid = [Log LError ''graceful shutting down failed: %s'' [AErr e]])"
proof -
  let ?pre = "[Recv_sigChan, Log LWarn ''Shutting down..'' []]"
  let ?mid = "case stop_err of
                Some e \<Rightarrow> [Log LError ''graceful shutting down failed: %s'' [AErr e]]
              | None \<Rightarrow> []"
  let ?post = "(case Shutdown_err of
                  Some e \<Rightarrow> [Log LError ''shutting down RPC server failed: %s'' [AErr e]]
                | None \<Rightarrow> [])
               @ [Log LWarn ''Graceful shutdown successful'' []]"
  have "fst (shutdown_goroutine stop_err Shutdown_err (s # sigs))
          = ?pre @ [Call_stop] @ ?mid @ [Call_Shutdown] @ ?post"
    by (simp add: shutdown_goroutine_def)
  moreover have "Call_stop \<notin> set (?pre @ ?mid @ ?post)"
    by (simp split: option.splits)
  moreover have "Call_Shutdown \<notin> set (?pre @ ?mid @ ?post)"
    by (simp split: option.splits)
  moreover have "\<forall>e. stop_err = Some e \<longrightarrow>
                   ?mid = [Log LError ''graceful shutting down failed: %s'' [AErr e]]"
    by simp
  ultimately show ?thesis by blast
qed

theorem shutdown_node_before_listener_witness:
  "\<exists>pre post.
     fst (shutdown_goroutine (Some (External ''node'')) None [SIGTERM])
       = pre @ [Call_stop]
           @ [Log LError ''graceful shutting down failed: %s'' [AErr (External ''node'')]]
           @ [Call_Shutdown] @ post"
  using shutdown_node_before_listener [of "Some (External ''node'')" None SIGTERM "[]"]
  by auto

text \<open>
  Claim C10. Once a signal has arrived, the last thing the goroutine does is to log
  \<open>Graceful shutdown successful\<close>, after both \<open>stop\<close> and \<open>srv.Shutdown\<close> have been
  called, and it does so whatever the two calls returned: the line is logged also when
  one of them, or both, failed.
\<close>

theorem shutdown_success_logged_unconditionally:
  "last (fst (shutdown_goroutine stop_err Shutdown_err (s # sigs)))
     = Log LWarn ''Graceful shutdown successful'' []
   \<and> count_list (fst (shutdown_goroutine stop_err Shutdown_err (s # sigs)))
        (Log LWarn ''Graceful shutdown successful'' []) = 1
   \<and> Call_stop \<in> set (fst (shutdown_goroutine stop_err Shutdown_err (s # sigs)))
   \<and> Call_Shutdown \<in> set (fst (shutdown_goroutine stop_err Shutdown_err (s # sigs)))
   \<and> snd (shutdown_goroutine stop_err Shutdown_err (s # sigs)) = Returned"
  by (simp add: shutdown_goroutine_def split: option.splits)

theorem shutdown_success_logged_unconditionally_witness:
  "last (fst (shutdown_goroutine (Some (External ''node'')) (Some (External ''srv'')) [SIGINT]))
     = Log LWarn ''Graceful shutdown successful'' []
   \<and> Log LError ''graceful shutting down failed: %s'' [AErr (External ''node'')]
       \<in> set (fst (shutdown_goroutine (Some (External ''node'')) (Some (External ''srv''))
                  [SIGINT]))
   \<and> Log LError ''shutting down RPC server failed: %s'' [AErr (External ''srv'')]
       \<in> set (fst (shutdown_goroutine (Some (External ''node'')) (Some (External ''srv''))
                  [SIGINT]))"
  using shutdown_success_logged_unconditionally
      [of "Some (External ''node'')" "Some (External ''srv'')" SIGINT "[]"]
  by (simp add: shutdown_goroutine_def)

section \<open>Properties of the HTTP handler stack\<close>

lemma cleanPath_rooted: "prefix ''/'' (cleanPath p)"
  by (simp add: cleanPath_def path_Clean_def Let_def)

lemma mux_routes_dispatch:
  "mux_ServeHTTP mux_routes r =
     (if cleanPath (path r) \<noteq> path r then [Respond_Redirect (cleanPath (path r))]
      else if path r = ''/rpc/v0'' then [Serve_by rpcServer r]
      else if prefix ''/remote'' (path r) then [Serve_by ServeRemote r]
      else [Serve_by DefaultServeMux r])"
proof (cases "cleanPath (path r) = path r")
  case True
  then have "prefix ''/'' (path r)"
    using cleanPath_rooted [of "path r"] by simp
  with True show ?thesis by (simp add: mux_ServeHTTP_def mux_routes_def)
next
  case False
  then show ?thesis by (simp add: mux_ServeHTTP_def)
qed

lemma cleanPath_examples:
  "cleanPath ''/rpc/v0'' = ''/rpc/v0''"
  "cleanPath ''/remote/sealed/1'' = ''/remote/sealed/1''"
  "cleanPath ''/rpc/v0/x'' = ''/rpc/v0/x''"
  "cleanPath ''/debug/pprof/'' = ''/debug/pprof/''"
  "cleanPath ''/remote/x'' = ''/remote/x''"
  "cleanPath ''/remote/../rpc/v0'' = ''/rpc/v0''"
  "cleanPath ''/remote//x'' = ''/remote/x''"
  by (simp_all add: cleanPath_def path_Clean_def)

text \<open>
  Claim C8, as the specification states it, says that every inbound request is
  dispatched to one of the three handlers. A request whose path is not in canonical form
  is not: for the path \<open>/remote//x\<close> the router answers with a redirect to
  \<open>/remote/x\<close> and no handler runs.
\<close>

theorem router_redirect_counterexample:
  "mux_ServeHTTP mux_routes \<lparr>path = ''/remote//x'', token = ''t''\<rparr>
     = [Respond_Redirect ''/remote/x'']"
  by (simp add: mux_routes_dispatch cleanPath_examples)

text \<open>
  Claim C8, amended. A request whose path is in canonical form (the router's path
  cleaning leaves it as it is) is served by exactly one handler, the first route that
  matches: the RPC server for the path \<open>/rpc/v0\<close> itself, the node's streaming handler
  for any other path that begins with \<open>/remote\<close>, and the default mux (diagnostics
  and profiling) for every other path. A request whose path is not canonical is answered
  with a redirect to the canonical path, and no handler runs.
\<close>

theorem router_canonical_first_match:
  "mux_ServeHTTP mux_routes r =
     (if cleanPath (path r) = path r then
        [Serve_by (if path r = ''/rpc/v0'' then rpcServer
                   else if prefix ''/remote'' (path r) then ServeRemote
                   else DefaultServeMux) r]
      else [Respond_Redirect (cleanPath (path r))])"
  by (simp add: mux_routes_dispatch)

theorem router_canonical_first_match_witness:
  "mux_ServeHTTP mux_routes \<lparr>path = ''/rpc/v0'', token = ''t''\<rparr>
     = [Serve_by rpcServer \<lparr>path = ''/rpc/v0'', token = ''t''\<rparr>]
   \<and> mux_ServeHTTP mux_routes \<lparr>path = ''/remote/sealed/1'', token = ''t''\<rparr>
     = [Serve_by ServeRemote \<lparr>path = ''/remote/sealed/1'', token = ''t''\<rparr>]
   \<and> mux_ServeHTTP mux_routes \<lparr>path = ''/rpc/v0/x'', token = ''t''\<rparr>
     = [Serve_by DefaultServeMux \<lparr>path = ''/rpc/v0/x'', token = ''t''\<rparr>]
   \<and> mux_ServeHTTP mux_routes \<lparr>path = ''/debug/pprof/'', token = ''t''\<rparr>
     = [Serve_by DefaultServeMux \<lparr>path = ''/debug/pprof/'', token = ''t''\<rparr>]
   \<and> mux_ServeHTTP mux_routes \<lparr>path = ''/remote/../rpc/v0'', token = ''t''\<rparr>
     = [Respond_Redirect ''/rpc/v0'']"
  using router_canonical_first_match [of "\<lparr>path = ''/rpc/v0'', token = ''t''\<rparr>"]
        router_canonical_first_match [of "\<lparr>path = ''/remote/sealed/1'', token = ''t''\<rparr>"]
        router_canonical_first_match [of "\<lparr>path = ''/rpc/v0/x'', token = ''t''\<rparr>"]
        router_canonical_first_match [of "\<lparr>path = ''/debug/pprof/'', token = ''t''\<rparr>"]
        router_canonical_first_match [of "\<lparr>path = ''/remote/../rpc/v0'', token = ''t''\<rparr>"]
  by (simp add: cleanPath_examples)

text \<open>
  Claim C4. For every request, whatever its path, the server first calls the
  verification predicate on the request's credential. When the verification fails the
  answer is the authentication failure and nothing else happens; a handler serves a
  request only after its verification has succeeded, and it is given the request
  unchanged. The three routes all sit behind the same gate.
\<close>

theorem auth_gate_before_every_route:
  "(\<exists>rest. srv_Handler AuthVerify r = Call_Verify (token r) # rest)
   \<and> (\<forall>e. AuthVerify (token r) = Inl e \<longrightarrow>
          srv_Handler AuthVerify r = [Call_Verify (token r), Respond_AuthFailure])
   \<and> (\<forall>h q. Serve_by h q \<in> set (srv_Handler AuthVerify r) \<longrightarrow>
          q = r \<and> (\<exists>perms. AuthVerify (token r) = Inr perms))"
  by (auto simp add: srv_Handler_def auth_Handler_ServeHTTP_def mux_routes_dispatch
        split: sum.splits if_splits)

theorem auth_gate_before_every_route_witness:
  "srv_Handler (\<lambda>t. if t = ''secret'' then Inr [''admin''] else Inl (External ''invalid''))
     \<lparr>path = ''/debug/pprof/'', token = ''guess''\<rparr>
   = [Call_Verify ''guess'', Respond_AuthFailure]
   \<and> srv_Handler (\<lambda>t. if t = ''secret'' then Inr [''admin''] else Inl (External ''invalid''))
     \<lparr>path = ''/rpc/v0'', token = ''guess''\<rparr>
   = [Call_Verify ''guess'', Respond_AuthFailure]
   \<and> srv_Handler (\<lambda>t. if t = ''secret'' then Inr [''admin''] else Inl (External ''invalid''))
     \<lparr>path = ''/remote/x'', token = ''guess''\<rparr>
   = [Call_Verify ''guess'', Respond_AuthFailure]
   \<and> srv_Handler (\<lambda>t. if t = ''secret'' then Inr [''admin''] else Inl (External ''invalid''))
     \<lparr>path = ''/rpc/v0'', token = ''secret''\<rparr>
   = [Call_Verify ''secret'', Serve_by rpcServer \<lparr>path = ''/rpc/v0'', token = ''secret''\<rparr>]"
proof -
  have served:
    "Serve_by rpcServer \<lparr>path = ''/rpc/v0'', token = ''secret''\<rparr>
       \<in> set (srv_Handler
            (\<lambda>t. if t = ''secret'' then Inr [''admin''] else Inl (External ''invalid''))
            \<lparr>path = ''/rpc/v0'', token = ''secret''\<rparr>)"
    by (simp add: srv_Handler_def auth_Handler_ServeHTTP_def mux_routes_dispatch
          cleanPath_examples)
  show ?thesis
    using auth_gate_before_every_route
        [of "\<lambda>t. if t = ''secret'' then Inr [''admin''] else Inl (External ''invalid'')"
            "\<lparr>path = ''/debug/pprof/'', token = ''guess''\<rparr>"]
       auth_gate_before_every_route
        [of "\<lambda>t. if t = ''secret'' then Inr [''admin''] else Inl (External ''invalid'')"
            "\<lparr>path = ''/rpc/v0'', token = ''guess''\<rparr>"]
       auth_gate_before_every_route
        [of "\<lambda>t. if t = ''secret'' then Inr [''admin''] else Inl (External ''invalid'')"
            "\<lparr>path = ''/remote/x'', token = ''guess''\<rparr>"]
       auth_gate_before_every_route
        [of "\<lambda>t. if t = ''secret'' then Inr [''admin''] else Inl (External ''invalid'')"
            "\<lparr>path = ''/rpc/v0'', token = ''secret''\<rparr>"]
       served
    by (simp add: srv_Handler_def auth_Handler_ServeHTTP_def mux_routes_dispatch
          cleanPath_examples)
qed

section \<open>Properties of the bootstrap\<close>

text \<open>
  Every run of the action ends in one of thirteen ways: one of the twelve places at
  which it returns an error during the bootstrap, or the serve loop. The rule gives, for
  each, the answers that lead there and the trace and result of the action.
\<close>

lemma Action_cases
  [case_names connect_failed version_failed version_mismatch sync_failed repo_open_failed
     repo_exists_failed repo_not_initialized node_failed endpoint_failed addrs_failed
     peer_connect_failed listen_failed serving]:
  obtains
    (connect_failed) e where
      "GetFullNodeAPI_err w = Some e" and
      "Action w =
         (disable_gpu w @ [Call_GetFullNodeAPI],
          Some e)"
  | (version_failed) e where
      "GetFullNodeAPI_err w = None" and
      "Version_result w = Inl e" and
      "Action w =
         (disable_gpu w @ [Call_GetFullNodeAPI, Call_Version] @ [Call_ncloser],
          Some e)"
  | (version_mismatch) v where
      "GetFullNodeAPI_err w = None" and
      "Version_result w = Inr v" and
      "APIVersion v \<noteq> build_APIVersion w" and
      "Action w =
         (disable_gpu w @ [Call_GetFullNodeAPI, Call_Version] @ [Call_ncloser],
          Some (Errorf ''lotus-daemon API version doesn't match: local: ''
                  [AVersion \<lparr>APIVersion = build_APIVersion w\<rparr>]))"
  | (sync_failed) v sevs e where
      "GetFullNodeAPI_err w = None" and
      "Version_result w = Inr v" and
      "APIVersion v = build_APIVersion w" and
      "sync_wait w = (sevs, Some e)" and
      "Action w =
         (disable_gpu w @ [Call_GetFullNodeAPI, Call_Version,
             Log LInfo ''Checking full node sync status'' []] @ sevs @ [Call_ncloser],
          Some (Errorf ''sync wait: %w'' [AErr e]))"
  | (repo_open_failed) v sevs e where
      "GetFullNodeAPI_err w = None" and
      "Version_result w = Inr v" and
      "APIVersion v = build_APIVersion w" and
      "sync_wait w = (sevs, None)" and
      "NewFS_err w = Some e" and
      "Action w =
         (disable_gpu w @ [Call_GetFullNodeAPI, Call_Version,
             Log LInfo ''Checking full node sync status'' []] @ sevs
          @ [Call_NewFS (storagerepo w)] @ [Call_ncloser],
          Some e)"
  | (repo_exists_failed) v sevs e where
      "GetFullNodeAPI_err w = None" and
      "Version_result w = Inr v" and
      "APIVersion v = build_APIVersion w" and
      "sync_wait w = (sevs, None)" and
      "NewFS_err w = None" and
      "Exists_result w = Inl e" and
      "Action w =
         (disable_gpu w @ [Call_GetFullNodeAPI, Call_Version,
             Log LInfo ''Checking full node sync status'' []] @ sevs
          @ [Call_NewFS (storagerepo w), Call_Exists] @ [Call_ncloser],
          Some e)"
  | (repo_not_initialized) v sevs where
      "GetFullNodeAPI_err w = None" and
      "Version_result w = Inr v" and
      "APIVersion v = build_APIVersion w" and
      "sync_wait w = (sevs, None)" and
      "NewFS_err w = None" and
      "Exists_result w = Inr False" and
      "Action w =
         (disable_gpu w @ [Call_GetFullNodeAPI, Call_Version,
             Log LInfo ''Checking full node sync status'' []] @ sevs
          @ [Call_NewFS (storagerepo w), Call_Exists] @ [Call_ncloser],
          Some (Errorf
            ''repo at '%s' is not initialized, run 'lotus-storage-miner init' to set it up''
            [AStr (storagerepo w)]))"
  | (node_failed) v sevs evs e r where
      "GetFullNodeAPI_err w = None" and
      "Version_result w = Inr v" and
      "APIVersion v = build_APIVersion w" and
      "sync_wait w = (sevs, None)" and
      "NewFS_err w = None" and
      "Exists_result w = Inr True" and
      "node_New (construct_err w) (node_options w) (persisted_endpoint w)
          = (evs, Some e, r)" and
      "Action w =
         (disable_gpu w @ [Call_GetFullNodeAPI, Call_Version,
             Log LInfo ''Checking full node sync status'' []] @ sevs
          @ [Call_NewFS (storagerepo w), Call_Exists] @ evs @ [Call_ncloser],
          Some e)"
  | (endpoint_failed) v sevs evs e where
      "GetFullNodeAPI_err w = None" and
      "Version_result w = Inr v" and
      "APIVersion v = build_APIVersion w" and
      "sync_wait w = (sevs, None)" and
      "NewFS_err w = None" and
      "Exists_result w = Inr True" and
      "node_New (construct_err w) (node_options w) (persisted_endpoint w)
          = (evs, None, Inl e)" and
      "Action w =
         (disable_gpu w @ [Call_GetFullNodeAPI, Call_Version,
             Log LInfo ''Checking full node sync status'' []] @ sevs
          @ [Call_NewFS (storagerepo w), Call_Exists] @ evs @ [Call_APIEndpoint]
          @ [Call_ncloser],
          Some e)"
  | (addrs_failed) v sevs evs endpoint e where
      "GetFullNodeAPI_err w = None" and
      "Version_result w = Inr v" and
      "APIVersion v = build_APIVersion w" and
      "sync_wait w = (sevs, None)" and
      "NewFS_err w = None" and
      "Exists_result w = Inr True" and
      "node_New (construct_err w) (node_options w) (persisted_endpoint w)
          = (evs, None, Inr endpoint)" and
      "NetAddrsListen_result w = Inl e" and
      "Action w =
         (disable_gpu w @ [Call_GetFullNodeAPI, Call_Version,
             Log LInfo ''Checking full node sync status'' []] @ sevs
          @ [Call_NewFS (storagerepo w), Call_Exists] @ evs
          @ [Call_APIEndpoint, Call_NetAddrsListen] @ [Call_ncloser],
          Some e)"
  | (peer_connect_failed) v sevs evs endpoint remoteAddrs e where
      "GetFullNodeAPI_err w = None" and
      "Version_result w = Inr v" and
      "APIVersion v = build_APIVersion w" and
      "sync_wait w = (sevs, None)" and
      "NewFS_err w = None" and
      "Exists_result w = Inr True" and
      "node_New (construct_err w) (node_options w) (persisted_endpoint w)
          = (evs, None, Inr endpoint)" and
      "NetAddrsListen_result w = Inr remoteAddrs" and
      "NetConnect_err w = Some e" and
      "Action w =
         (disable_gpu w @ [Call_GetFullNodeAPI, Call_Version,
             Log LInfo ''Checking full node sync status'' []] @ sevs
          @ [Call_NewFS (storagerepo w), Call_Exists] @ evs
          @ [Call_APIEndpoint, Call_NetAddrsListen, Call_NetConnect remoteAddrs]
          @ [Call_ncloser],
          Some e)"
  | (listen_failed) v sevs evs endpoint remoteAddrs e where
      "GetFullNodeAPI_err w = None" and
      "Version_result w = Inr v" and
      "APIVersion v = build_APIVersion w" and
      "sync_wait w = (sevs, None)" and
      "NewFS_err w = None" and
      "Exists_result w = Inr True" and
      "node_New (construct_err w) (node_options w) (persisted_endpoint w)
          = (evs, None, Inr endpoint)" and
      "NetAddrsListen_result w = Inr remoteAddrs" and
      "NetConnect_err w = None" and
      "Listen_err w endpoint = Some e" and
      "Action w =
         (disable_gpu w @ [Call_GetFullNodeAPI, Call_Version,
             Log LInfo ''Checking full node sync status'' []] @ sevs
          @ [Call_NewFS (storagerepo w), Call_Exists] @ evs
          @ [Call_APIEndpoint, Call_NetAddrsListen, Call_NetConnect remoteAddrs,
             Log LInfo ''Remote version %s'' [AVersion v], Call_Listen endpoint]
          @ [Call_ncloser],
          Some (Errorf ''could not listen: %w'' [AErr e]))"
  | (serving) v sevs evs endpoint remoteAddrs where
      "GetFullNodeAPI_err w = None" and
      "Version_result w = Inr v" and
      "APIVersion v = build_APIVersion w" and
      "sync_wait w = (sevs, None)" and
      "NewFS_err w = None" and
      "Exists_result w = Inr True" and
      "node_New (construct_err w) (node_options w) (persisted_endpoint w)
          = (evs, None, Inr endpoint)" and
      "NetAddrsListen_result w = Inr remoteAddrs" and
      "NetConnect_err w = None" and
      "Listen_err w endpoint = None" and
      "Action w =
         (disable_gpu w @ [Call_GetFullNodeAPI, Call_Version,
             Log LInfo ''Checking full node sync status'' []] @ sevs
          @ [Call_NewFS (storagerepo w), Call_Exists] @ evs
          @ [Call_APIEndpoint, Call_NetAddrsListen, Call_NetConnect remoteAddrs,
             Log LInfo ''Remote version %s'' [AVersion v], Call_Listen endpoint]
          @ start_goroutines w @ [Call_Serve endpoint] @ [Call_ncloser],
          Serve_result w)"
proof (cases "GetFullNodeAPI_err w")
  case (Some e)
  then show ?thesis by (rule connect_failed)
        (simp add: Action_def emit_def deferred_def Some)
next
  case c1: None
  show ?thesis
  proof (cases "Version_result w")
    case (Inl e)
    with c1 show ?thesis by (rule version_failed)
        (simp add: Action_def emit_def deferred_def c1 Inl)
  next
    case c2: (Inr v)
    show ?thesis
    proof (cases "APIVersion v = build_APIVersion w")
      case False
      with c1 c2 show ?thesis by (rule version_mismatch)
        (simp add: Action_def emit_def deferred_def c1 c2 False)
    next
      case c3: True
      obtain sevs sres where sw: "sync_wait w = (sevs, sres)"
        by (cases "sync_wait w")
      show ?thesis
      proof (cases sres)
        case (Some e)
        with sw have f: "sync_wait w = (sevs, Some e)" by simp
        from c1 c2 c3 f show ?thesis by (rule sync_failed)
        (simp add: Action_def emit_def deferred_def c1 c2 c3 f)
      next
        case None
        with sw have c4: "sync_wait w = (sevs, None)" by simp
        show ?thesis
        proof (cases "NewFS_err w")
          case (Some e)
          with c1 c2 c3 c4 show ?thesis by (rule repo_open_failed)
        (simp add: Action_def emit_def deferred_def c1 c2 c3 c4 Some)
        next
          case c5: None
          show ?thesis
          proof (cases "Exists_result w")
            case (Inl e)
            with c1 c2 c3 c4 c5 show ?thesis by (rule repo_exists_failed)
        (simp add: Action_def emit_def deferred_def c1 c2 c3 c4 c5 Inl)
          next
            case (Inr ok)
            show ?thesis
            proof (cases ok)
              case False
              with Inr have f: "Exists_result w = Inr False" by simp
              from c1 c2 c3 c4 c5 f show ?thesis by (rule repo_not_initialized)
        (simp add: Action_def emit_def deferred_def c1 c2 c3 c4 c5 f)
            next
              case True
              with Inr have c6: "Exists_result w = Inr True" by simp
              obtain evs res r where
                nn: "node_New (construct_err w) (node_options w) (persisted_endpoint w)
                       = (evs, res, r)"
                by (cases "node_New (construct_err w) (node_options w) (persisted_endpoint w)")
              show ?thesis
              proof (cases res)
                case (Some e)
                with nn have f:
                  "node_New (construct_err w) (node_options w) (persisted_endpoint w)
                     = (evs, Some e, r)" by simp
                from c1 c2 c3 c4 c5 c6 f show ?thesis by (rule node_failed)
        (simp add: Action_def emit_def deferred_def c1 c2 c3 c4 c5 c6 f)
              next
                case None
                show ?thesis
                proof (cases r)
                  case (Inl e)
                  with nn None have f:
                    "node_New (construct_err w) (node_options w) (persisted_endpoint w)
                       = (evs, None, Inl e)" by simp
                  from c1 c2 c3 c4 c5 c6 f show ?thesis by (rule endpoint_failed)
        (simp add: Action_def emit_def deferred_def c1 c2 c3 c4 c5 c6 f)
                next
                  case (Inr endpoint)
                  with nn None have c7:
                    "node_New (construct_err w) (node_options w) (persisted_endpoint w)
                       = (evs, None, Inr endpoint)" by simp
                  show ?thesis
                  proof (cases "NetAddrsListen_result w")
                    case (Inl e)
                    with c1 c2 c3 c4 c5 c6 c7 show ?thesis by (rule addrs_failed)
        (simp add: Action_def emit_def deferred_def c1 c2 c3 c4 c5 c6 c7 Inl)
                  next
                    case c8: (Inr remoteAddrs)
                    show ?thesis
                    proof (cases "NetConnect_err w")
                      case (Some e)
                      with c1 c2 c3 c4 c5 c6 c7 c8 show ?thesis
                        by (rule peer_connect_failed)
        (simp add: Action_def emit_def deferred_def c1 c2 c3 c4 c5 c6 c7 c8 Some)
                    next
                      case c9: None
                      show ?thesis
                      proof (cases "Listen_err w endpoint")
                        case (Some e)
                        with c1 c2 c3 c4 c5 c6 c7 c8 c9 show ?thesis
                          by (rule listen_failed)
        (simp add: Action_def emit_def deferred_def c1 c2 c3 c4 c5 c6 c7 c8 c9 Some)
                      next
                        case c10: None
                        with c1 c2 c3 c4 c5 c6 c7 c8 c9 show ?thesis
                          by (rule serving)
        (simp add: Action_def emit_def deferred_def c1 c2 c3 c4 c5 c6 c7 c8 c9 c10)
                      qed
                    qed
                  qed
                qed
              qed
            qed
          qed
        qed
      qed
    qed
  qed
qed


lemma sync_wait_cases [case_names skipped waited]:
  assumes "sync_wait w = (sevs, r)"
  obtains
    (skipped) "cctx_Bool (cctx w) ''nosync''" and "sevs = []" and "r = None"
  | (waited) "\<not> cctx_Bool (cctx w) ''nosync''" and "sevs = [Call_SyncWait]" and
      "SyncWait_err w = r"
  using assms by (auto simp add: sync_wait_def split: if_splits)

lemma sync_wait_events:
  "sync_wait w = (sevs, r) \<Longrightarrow>
   sevs = (if cctx_Bool (cctx w) ''nosync'' then [] else [Call_SyncWait])"
  by (auto simp add: sync_wait_def split: if_splits)

lemma node_New_options:
  "node_New ce (node_options w) lr =
     (if cctx_IsSet (cctx w) ''api'' then
        (case set_api_endpoint w lr of
           (evs, Some e, lr') \<Rightarrow> (Call_node_New # evs, Some e, lr')
         | (evs, None, lr') \<Rightarrow> (Call_node_New # evs, ce, lr'))
      else ([Call_node_New], ce, lr))"
  by (simp add: node_New_def node_options_def split: prod.splits option.splits)

lemma node_New_cases [case_names not_set parse_failed store_failed overridden]:
  assumes "node_New ce (node_options w) lr = (evs, res, r)"
  obtains
    (not_set)
      "\<not> cctx_IsSet (cctx w) ''api''" and "evs = [Call_node_New]" and "ce = res" and "lr = r"
  | (parse_failed) e where
      "cctx_IsSet (cctx w) ''api''" and
      "NewMultiaddr_result w (''/ip4/127.0.0.1/tcp/'' @ cctx_String (cctx w) ''api'') = Inl e" and
      "evs = [Call_node_New,
              Call_NewMultiaddr (''/ip4/127.0.0.1/tcp/'' @ cctx_String (cctx w) ''api'')]" and
      "res = Some e" and "lr = r"
  | (store_failed) apima e where
      "cctx_IsSet (cctx w) ''api''" and
      "NewMultiaddr_result w (''/ip4/127.0.0.1/tcp/'' @ cctx_String (cctx w) ''api'')
         = Inr apima" and
      "evs = [Call_node_New,
              Call_NewMultiaddr (''/ip4/127.0.0.1/tcp/'' @ cctx_String (cctx w) ''api''),
              Call_SetAPIEndpoint apima]" and
      "SetAPIEndpoint_err w = Some e" and "res = Some e" and "lr = r"
  | (overridden) apima where
      "cctx_IsSet (cctx w) ''api''" and
      "NewMultiaddr_result w (''/ip4/127.0.0.1/tcp/'' @ cctx_String (cctx w) ''api'')
         = Inr apima" and
      "evs = [Call_node_New,
              Call_NewMultiaddr (''/ip4/127.0.0.1/tcp/'' @ cctx_String (cctx w) ''api''),
              Call_SetAPIEndpoint apima]" and
      "SetAPIEndpoint_err w = None" and "ce = res" and "r = Inr apima"
proof (cases "cctx_IsSet (cctx w) ''api''")
  case False
  with assms show ?thesis by (intro not_set) (simp_all add: node_New_options)
next
  case set: True
  show ?thesis
  proof (cases "NewMultiaddr_result w (''/ip4/127.0.0.1/tcp/'' @ cctx_String (cctx w) ''api'')")
    case (Inl e)
    with assms set show ?thesis
      by (intro parse_failed [of e]) (simp_all add: node_New_options set_api_endpoint_def)
  next
    case (Inr apima)
    show ?thesis
    proof (cases "SetAPIEndpoint_err w")
      case None
      with assms set Inr show ?thesis
        by (intro overridden [of apima]) (simp_all add: node_New_options set_api_endpoint_def)
    next
      case (Some e)
      with assms set Inr show ?thesis
        by (intro store_failed [of apima e])
          (simp_all add: node_New_options set_api_endpoint_def)
    qed
  qed
qed

lemma steps_run_append: "steps_run (xs @ ys) = steps_run xs @ steps_run ys"
  by (simp add: steps_run_def map_filter_def)

lemma steps_run_Nil: "steps_run [] = []"
  by (simp add: steps_run_def map_filter_def)

lemma steps_run_Cons:
  "steps_run (x # xs) = (case step_of x of None \<Rightarrow> steps_run xs | Some s \<Rightarrow> s # steps_run xs)"
  by (cases "step_of x") (simp_all add: steps_run_def map_filter_simps)

lemma steps_run_disable_gpu: "steps_run (disable_gpu w) = []"
  by (simp add: disable_gpu_def steps_run_Nil steps_run_Cons)

lemma steps_run_start_goroutines: "steps_run (start_goroutines w) = []"
  by (simp add: start_goroutines_def steps_run_Nil steps_run_Cons)

lemma Serve_step_iff:
  "(\<exists>a. Call_Serve a \<in> set evs) = (Serve_step \<in> set (steps_run evs))"
proof (induction evs)
  case Nil
  then show ?case by (simp add: steps_run_Nil)
next
  case (Cons x evs)
  then show ?case by (cases x) (auto simp add: steps_run_Cons)
qed

lemmas steps_run_simps =
  steps_run_append steps_run_Cons steps_run_Nil steps_run_disable_gpu
  steps_run_start_goroutines

lemma Action_sequential:
  "snd (Action w) =
     (case first_error (step_outcomes w) of
        Some (s, e) \<Rightarrow> Some e
      | None \<Rightarrow> Serve_result w)
   \<and> remdups_adj (steps_run (fst (Action w))) =
       (case first_error (step_outcomes w) of
          Some (s, e) \<Rightarrow> takeWhile (\<lambda>s'. step_index s' \<le> step_index s) (step_plan w)
        | None \<Rightarrow> step_plan w)
   \<and> sorted (map step_index (steps_run (fst (Action w))))
   \<and> ((Serve_step \<in> set (steps_run (fst (Action w)))) = (first_error (step_outcomes w) = None))
   \<and> (\<forall>s e. first_error (step_outcomes w) = Some (s, e) \<longrightarrow>
         last (steps_run (fst (Action w))) = s)"
proof (cases w rule: Action_cases)
  case c: (connect_failed e)
  then show ?thesis by (simp add: step_outcomes_def step_plan_def resolved_endpoint_def steps_run_simps)
next
  case c: (version_failed e)
  then show ?thesis by (simp add: step_outcomes_def step_plan_def resolved_endpoint_def steps_run_simps)
next
  case c: (version_mismatch v)
  then show ?thesis by (simp add: step_outcomes_def step_plan_def resolved_endpoint_def steps_run_simps)
next
  case c: (sync_failed v sevs e)
  from c(4) show ?thesis
    by (cases rule: sync_wait_cases) (use c in \<open>simp_all add: step_outcomes_def step_plan_def steps_run_simps\<close>)
next
  case c: (repo_open_failed v sevs e)
  from c(4) show ?thesis
    by (cases rule: sync_wait_cases) (use c in \<open>simp_all add: step_outcomes_def step_plan_def steps_run_simps\<close>)
next
  case c: (repo_exists_failed v sevs e)
  from c(4) show ?thesis
    by (cases rule: sync_wait_cases) (use c in \<open>simp_all add: step_outcomes_def step_plan_def steps_run_simps\<close>)
next
  case c: (repo_not_initialized v sevs)
  from c(4) show ?thesis
    by (cases rule: sync_wait_cases) (use c in \<open>simp_all add: step_outcomes_def step_plan_def steps_run_simps\<close>)
next
  case c: (node_failed v sevs evs e r)
  from c(4) show ?thesis
  proof (cases rule: sync_wait_cases)
    case skipped
    from c(7) show ?thesis
      by (cases rule: node_New_cases)
        (use c skipped in \<open>simp_all add: step_outcomes_def step_plan_def
           resolved_endpoint_def steps_run_simps\<close>)
  next
    case waited
    from c(7) show ?thesis
      by (cases rule: node_New_cases)
        (use c waited in \<open>simp_all add: step_outcomes_def step_plan_def
           resolved_endpoint_def steps_run_simps\<close>)
  qed
next
  case c: (endpoint_failed v sevs evs e)
  from c(4) show ?thesis
  proof (cases rule: sync_wait_cases)
    case skipped
    from c(7) show ?thesis
      by (cases rule: node_New_cases)
        (use c skipped in \<open>simp_all add: step_outcomes_def step_plan_def
           resolved_endpoint_def steps_run_simps\<close>)
  next
    case waited
    from c(7) show ?thesis
      by (cases rule: node_New_cases)
        (use c waited in \<open>simp_all add: step_outcomes_def step_plan_def
           resolved_endpoint_def steps_run_simps\<close>)
  qed
next
  case c: (addrs_failed v sevs evs endpoint e)
  from c(4) show ?thesis
  proof (cases rule: sync_wait_cases)
    case skipped
    from c(7) show ?thesis
      by (cases rule: node_New_cases)
        (use c skipped in \<open>simp_all add: step_outcomes_def step_plan_def
           resolved_endpoint_def steps_run_simps\<close>)
  next
    case waited
    from c(7) show ?thesis
      by (cases rule: node_New_cases)
        (use c waited in \<open>simp_all add: step_outcomes_def step_plan_def
           resolved_endpoint_def steps_run_simps\<close>)
  qed
next
  case c: (peer_connect_failed v sevs evs endpoint remoteAddrs e)
  from c(4) show ?thesis
  proof (cases rule: sync_wait_cases)
    case skipped
    from c(7) show ?thesis
      by (cases rule: node_New_cases)
        (use c skipped in \<open>simp_all add: step_outcomes_def step_plan_def
           resolved_endpoint_def steps_run_simps\<close>)
  next
    case waited
    from c(7) show ?thesis
      by (cases rule: node_New_cases)
        (use c waited in \<open>simp_all add: step_outcomes_def step_plan_def
           resolved_endpoint_def steps_run_simps\<close>)
  qed
next
  case c: (listen_failed v sevs evs endpoint remoteAddrs e)
  from c(4) show ?thesis
  proof (cases rule: sync_wait_cases)
    case skipped
    from c(7) show ?thesis
      by (cases rule: node_New_cases)
        (use c skipped in \<open>simp_all add: step_outcomes_def step_plan_def
           resolved_endpoint_def steps_run_simps\<close>)
  next
    case waited
    from c(7) show ?thesis
      by (cases rule: node_New_cases)
        (use c waited in \<open>simp_all add: step_outcomes_def step_plan_def
           resolved_endpoint_def steps_run_simps\<close>)
  qed
next
  case c: (serving v sevs evs endpoint remoteAddrs)
  from c(4) show ?thesis
  proof (cases rule: sync_wait_cases)
    case skipped
    from c(7) show ?thesis
      by (cases rule: node_New_cases)
        (use c skipped in \<open>simp_all add: step_outcomes_def step_plan_def
           resolved_endpoint_def steps_run_simps\<close>)
  next
    case waited
    from c(7) show ?thesis
      by (cases rule: node_New_cases)
        (use c waited in \<open>simp_all add: step_outcomes_def step_plan_def
           resolved_endpoint_def steps_run_simps\<close>)
  qed
qed

lemma Sprintf_repo_message:
  "Sprintf ''repo at '%s' is not initialized, run 'lotus-storage-miner init' to set it up'' [p]
   = Some (''repo at '' @ [CHR 0x27] @ p @ [CHR 0x27]
           @ '' is not initialized, run 'lotus-storage-miner init' to set it up'')"
  by simp

text \<open>The unfolding that evaluates the action in a concrete environment.\<close>

lemmas Action_eval =
  Action_def emit_def deferred_def disable_gpu_def sync_wait_def start_goroutines_def
  node_New_options set_api_endpoint_def cctx_Bool_def cctx_String_def cctx_IsSet_def
  example_env_def

text \<open>
  Claim C2, as the specification states it, says that the error of a version mismatch
  carries both versions. It carries the local one only: with local version 1 the action
  returns the same error for the remote versions 2 and 3, and neither appears in it.
\<close>

theorem version_mismatch_message_counterexample:
  "snd (Action (example_env\<lparr>Version_result := Inr \<lparr>APIVersion = 2\<rparr>\<rparr>))
     = Some (Errorf ''lotus-daemon API version doesn't match: local: ''
               [AVersion \<lparr>APIVersion = 1\<rparr>])
   \<and> snd (Action (example_env\<lparr>Version_result := Inr \<lparr>APIVersion = 3\<rparr>\<rparr>))
     = Some (Errorf ''lotus-daemon API version doesn't match: local: ''
               [AVersion \<lparr>APIVersion = 1\<rparr>])"
  by (simp add: Action_eval)

text \<open>
  Claim C2, amended. Whenever the full node answers the version query with a version
  other than the local one, the action returns the version mismatch error, whose only
  operand is the local version, and \<open>node.New\<close> is never called.
\<close>

theorem version_mismatch_aborts:
  assumes "GetFullNodeAPI_err w = None"
      and "Version_result w = Inr remote"
      and "APIVersion remote \<noteq> build_APIVersion w"
  shows "snd (Action w) =
           Some (Errorf ''lotus-daemon API version doesn't match: local: ''
                   [AVersion \<lparr>APIVersion = build_APIVersion w\<rparr>])
       \<and> Call_node_New \<notin> set (fst (Action w))"
  using assms by (simp add: Action_def emit_def deferred_def disable_gpu_def)

theorem version_mismatch_aborts_witness:
  "snd (Action (example_env\<lparr>Version_result := Inr \<lparr>APIVersion = 2\<rparr>\<rparr>))
     = Some (Errorf ''lotus-daemon API version doesn't match: local: ''
               [AVersion \<lparr>APIVersion = 1\<rparr>])
   \<and> Call_node_New \<notin>
       set (fst (Action
         (example_env\<lparr>Version_result := Inr \<lparr>APIVersion = 2\<rparr>\<rparr>)))"
  using version_mismatch_aborts
      [of "example_env\<lparr>Version_result := Inr \<lparr>APIVersion = 2\<rparr>\<rparr>"
          "\<lparr>APIVersion = 2\<rparr>"]
  by (simp add: example_env_def)

text \<open>
  Claim C6. When the repository is not initialized (\<open>Exists\<close> answers false), the action
  returns an error, and it neither calls \<open>node.New\<close> nor opens a listener. When the run
  gets as far as asking the repository, the error is the one that names the path: its
  format has a single \<open>%s\<close>, its operand is the repository path, and rendered it reads
  \<open>repo at '<path>' is not initialized, ...\<close>.
\<close>

theorem repo_not_initialized_aborts:
  assumes "Exists_result w = Inr False"
  shows "(\<exists>e. snd (Action w) = Some e)
       \<and> Call_node_New \<notin> set (fst (Action w))
       \<and> (\<forall>a. Call_Listen a \<notin> set (fst (Action w)))
       \<and> (Call_Exists \<in> set (fst (Action w)) \<longrightarrow>
            snd (Action w) =
              Some (Errorf
                ''repo at '%s' is not initialized, run 'lotus-storage-miner init' to set it up''
                [AStr (storagerepo w)])
            \<and> Sprintf
                ''repo at '%s' is not initialized, run 'lotus-storage-miner init' to set it up''
                [storagerepo w]
              = Some (''repo at '' @ [CHR 0x27] @ storagerepo w @ [CHR 0x27]
                      @ '' is not initialized, run 'lotus-storage-miner init' to set it up''))"
proof (cases w rule: Action_cases)
  case (connect_failed e)
  then show ?thesis by (simp add: disable_gpu_def)
next
  case (version_failed e)
  then show ?thesis by (simp add: disable_gpu_def)
next
  case (version_mismatch v)
  then show ?thesis by (simp add: disable_gpu_def)
next
  case (sync_failed v sevs e)
  then show ?thesis using sync_wait_events [of w sevs] by (simp add: disable_gpu_def)
next
  case (repo_open_failed v sevs e)
  then show ?thesis using sync_wait_events [of w sevs] by (simp add: disable_gpu_def)
next
  case (repo_not_initialized v sevs)
  then show ?thesis
    using sync_wait_events [of w sevs] Sprintf_repo_message [of "storagerepo w"]
    by (simp add: disable_gpu_def)
qed (use assms in simp_all)

theorem repo_not_initialized_aborts_witness:
  "snd (Action (example_env\<lparr>Exists_result := Inr False\<rparr>))
     = Some (Errorf
         ''repo at '%s' is not initialized, run 'lotus-storage-miner init' to set it up''
         [AStr ''/data/miner''])
   \<and> Sprintf ''repo at '%s' is not initialized, run 'lotus-storage-miner init' to set it up''
        [''/data/miner'']
     = Some ''repo at '/data/miner' is not initialized, run 'lotus-storage-miner init' to set it up''
   \<and> Call_node_New \<notin> set (fst (Action (example_env\<lparr>Exists_result := Inr False\<rparr>)))
   \<and> (\<forall>a. Call_Listen a \<notin> set (fst (Action (example_env\<lparr>Exists_result := Inr False\<rparr>))))"
proof -
  have h: "Exists_result (example_env\<lparr>Exists_result := Inr False\<rparr>) = Inr False"
    by simp
  have r: "Call_Exists \<in> set (fst (Action (example_env\<lparr>Exists_result := Inr False\<rparr>)))"
    by (simp add: Action_eval)
  show ?thesis
    using repo_not_initialized_aborts [OF h] r by (simp add: example_env_def)
qed

text \<open>
  Claim C3. Whenever the action opens its listener, the address it listens on is decided
  by the \<open>api\<close> option alone. If the option was given, the address is the one parsed from
  \<open>/ip4/127.0.0.1/tcp/\<close> followed by the option's value, it was stored in the
  repository by the override, and the endpoint found on disk plays no part. If the
  option was not given, no endpoint is stored and the address is the one the repository
  had.
\<close>

theorem endpoint_override_iff_api_set:
  assumes "Call_Listen a \<in> set (fst (Action w))"
  shows "if cctx_IsSet (cctx w) ''api'' then
           NewMultiaddr_result w (''/ip4/127.0.0.1/tcp/'' @ cctx_String (cctx w) ''api'') = Inr a
           \<and> Call_SetAPIEndpoint a \<in> set (fst (Action w))
         else
           persisted_endpoint w = Inr a
           \<and> (\<forall>b. Call_SetAPIEndpoint b \<notin> set (fst (Action w)))"
proof (cases w rule: Action_cases)
  case (connect_failed e)
  with assms show ?thesis by (simp add: disable_gpu_def split: if_splits)
next
  case (version_failed e)
  with assms show ?thesis by (simp add: disable_gpu_def split: if_splits)
next
  case (version_mismatch v)
  with assms show ?thesis by (simp add: disable_gpu_def split: if_splits)
next
  case (sync_failed v sevs e)
  with assms show ?thesis
    using sync_wait_events [of w sevs] by (simp add: disable_gpu_def split: if_splits)
next
  case (repo_open_failed v sevs e)
  with assms show ?thesis
    using sync_wait_events [of w sevs] by (simp add: disable_gpu_def split: if_splits)
next
  case (repo_exists_failed v sevs e)
  with assms show ?thesis
    using sync_wait_events [of w sevs] by (simp add: disable_gpu_def split: if_splits)
next
  case (repo_not_initialized v sevs)
  with assms show ?thesis
    using sync_wait_events [of w sevs] by (simp add: disable_gpu_def split: if_splits)
next
  case (node_failed v sevs evs e r)
  from node_failed(7) have "Call_Listen a \<notin> set evs"
    by (cases rule: node_New_cases) simp_all
  with node_failed assms show ?thesis
    using sync_wait_events [of w sevs] by (simp add: disable_gpu_def split: if_splits)
next
  case (endpoint_failed v sevs evs e)
  from endpoint_failed(7) have "Call_Listen a \<notin> set evs"
    by (cases rule: node_New_cases) simp_all
  with endpoint_failed assms show ?thesis
    using sync_wait_events [of w sevs] by (simp add: disable_gpu_def split: if_splits)
next
  case (addrs_failed v sevs evs endpoint e)
  from addrs_failed(7) have "Call_Listen a \<notin> set evs"
    by (cases rule: node_New_cases) simp_all
  with addrs_failed assms show ?thesis
    using sync_wait_events [of w sevs] by (simp add: disable_gpu_def split: if_splits)
next
  case (peer_connect_failed v sevs evs endpoint remoteAddrs e)
  from peer_connect_failed(7) have "Call_Listen a \<notin> set evs"
    by (cases rule: node_New_cases) simp_all
  with peer_connect_failed assms show ?thesis
    using sync_wait_events [of w sevs] by (simp add: disable_gpu_def split: if_splits)
next
  case (listen_failed v sevs evs endpoint remoteAddrs e)
  from listen_failed(7) have "Call_Listen a \<notin> set evs"
    by (cases rule: node_New_cases) simp_all
  with listen_failed assms have a: "a = endpoint"
    using sync_wait_events [of w sevs] by (simp add: disable_gpu_def split: if_splits)
  from listen_failed(7) show ?thesis
  proof (cases rule: node_New_cases)
    case not_set
    with listen_failed a show ?thesis
      using sync_wait_events [of w sevs] by (simp add: disable_gpu_def)
  next
    case (overridden apima)
    with listen_failed a show ?thesis by simp
  qed simp_all
next
  case (serving v sevs evs endpoint remoteAddrs)
  from serving(7) have "Call_Listen a \<notin> set evs"
    by (cases rule: node_New_cases) simp_all
  with serving assms have a: "a = endpoint"
    using sync_wait_events [of w sevs]
    by (simp add: disable_gpu_def start_goroutines_def split: if_splits)
  from serving(7) show ?thesis
  proof (cases rule: node_New_cases)
    case not_set
    with serving a show ?thesis
      using sync_wait_events [of w sevs] by (simp add: disable_gpu_def start_goroutines_def)
  next
    case (overridden apima)
    with serving a show ?thesis by simp
  qed simp_all
qed

theorem endpoint_override_iff_api_set_witness:
  "Call_Listen (Multiaddr ''/ip4/127.0.0.1/tcp/9000'')
     \<in> set (fst (Action (example_env
          \<lparr>cctx := \<lparr>bool_flags = [''nosync'' \<mapsto> True],
                    string_flags = [''api'' \<mapsto> ''9000'']\<rparr>\<rparr>)))
   \<and> Call_SetAPIEndpoint (Multiaddr ''/ip4/127.0.0.1/tcp/9000'')
     \<in> set (fst (Action (example_env
          \<lparr>cctx := \<lparr>bool_flags = [''nosync'' \<mapsto> True],
                    string_flags = [''api'' \<mapsto> ''9000'']\<rparr>\<rparr>)))
   \<and> persisted_endpoint example_env = Inr (Multiaddr ''/ip4/127.0.0.1/tcp/2345'')
   \<and> Call_Listen (Multiaddr ''/ip4/127.0.0.1/tcp/2345'') \<in> set (fst (Action example_env))
   \<and> (\<forall>b. Call_SetAPIEndpoint b \<notin> set (fst (Action example_env)))"
proof -
  have h1: "Call_Listen (Multiaddr ''/ip4/127.0.0.1/tcp/9000'')
     \<in> set (fst (Action (example_env
          \<lparr>cctx := \<lparr>bool_flags = [''nosync'' \<mapsto> True],
                    string_flags = [''api'' \<mapsto> ''9000'']\<rparr>\<rparr>)))"
    by (simp add: Action_eval)
  have h2: "Call_Listen (Multiaddr ''/ip4/127.0.0.1/tcp/2345'')
     \<in> set (fst (Action example_env))"
    by (simp add: Action_eval)
  show ?thesis
    using endpoint_override_iff_api_set [OF h1] endpoint_override_iff_api_set [OF h2] h1 h2
    by (simp add: cctx_IsSet_def example_env_def)
qed

text \<open>
  Claim C9. The bootstrap steps run in the order version check, sync wait, repository
  check, node construction, endpoint resolution, peer connect, listen. The outcome of
  each step is read from the environment alone. The action returns the error of the
  first step that fails (the errors of the sync wait and of the listen wrapped in their
  message); the steps that run are exactly those up to and including that step, each
  once and in order, and none after it; \<open>srv.Serve\<close> is called exactly when no step
  fails, and its result is then the result of the action.
\<close>

theorem bootstrap_sequential:
  "snd (Action w) =
     (case first_error (step_outcomes w) of
        Some (s, e) \<Rightarrow> Some e
      | None \<Rightarrow> Serve_result w)
   \<and> remdups_adj (steps_run (fst (Action w))) =
       (case first_error (step_outcomes w) of
          Some (s, e) \<Rightarrow> takeWhile (\<lambda>s'. step_index s' \<le> step_index s) (step_plan w)
        | None \<Rightarrow> step_plan w)
   \<and> sorted (map step_index (steps_run (fst (Action w))))
   \<and> ((\<exists>a. Call_Serve a \<in> set (fst (Action w))) = (first_error (step_outcomes w) = None))
   \<and> (\<forall>s e. first_error (step_outcomes w) = Some (s, e) \<longrightarrow>
         last (steps_run (fst (Action w))) = s)"
  using Action_sequential [of w] by (simp add: Serve_step_iff)

theorem bootstrap_sequential_witness:
  "snd (Action (example_env\<lparr>SyncWait_err := Some (External ''not synced'')\<rparr>))
     = Some (Errorf ''sync wait: %w'' [AErr (External ''not synced'')])
   \<and> remdups_adj (steps_run (fst (Action
         (example_env\<lparr>SyncWait_err := Some (External ''not synced'')\<rparr>))))
     = [Version_check, Sync_wait]
   \<and> (\<forall>a. Call_Serve a \<notin>
         set (fst (Action (example_env\<lparr>SyncWait_err := Some (External ''not synced'')\<rparr>))))
   \<and> snd (Action (example_env\<lparr>Listen_err := (\<lambda>a. Some (External ''address in use''))\<rparr>))
     = Some (Errorf ''could not listen: %w'' [AErr (External ''address in use'')])
   \<and> (\<forall>a. Call_Serve a \<notin>
         set (fst (Action
           (example_env\<lparr>Listen_err := (\<lambda>a. Some (External ''address in use''))\<rparr>))))
   \<and> last (steps_run (fst (Action
         (example_env\<lparr>Listen_err := (\<lambda>a. Some (External ''address in use''))\<rparr>))))
     = Listen_step
   \<and> snd (Action example_env) = Some (External ''http: Server closed'')
   \<and> remdups_adj (steps_run (fst (Action example_env)))
     = [Version_check, Sync_wait, Repo_check, Node_construction, Endpoint_resolution,
        Peer_connect, Listen_step, Serve_step]
   \<and> (\<exists>a. Call_Serve a \<in> set (fst (Action example_env)))"
proof -
  have f0: "first_error (step_outcomes
              (example_env\<lparr>SyncWait_err := Some (External ''not synced'')\<rparr>))
            = Some (Sync_wait, Errorf ''sync wait: %w'' [AErr (External ''not synced'')])"
    by (simp add: step_outcomes_def resolved_endpoint_def cctx_Bool_def cctx_IsSet_def
          example_env_def)
  have f1: "first_error (step_outcomes
              (example_env\<lparr>Listen_err := (\<lambda>a. Some (External ''address in use''))\<rparr>))
            = Some (Listen_step,
                Errorf ''could not listen: %w'' [AErr (External ''address in use'')])"
    by (simp add: step_outcomes_def resolved_endpoint_def cctx_Bool_def cctx_IsSet_def
          example_env_def)
  have f2: "first_error (step_outcomes example_env) = None"
    by (simp add: step_outcomes_def resolved_endpoint_def cctx_Bool_def cctx_IsSet_def
          example_env_def)
  show ?thesis
    using bootstrap_sequential
            [of "example_env\<lparr>SyncWait_err := Some (External ''not synced'')\<rparr>"]
          bootstrap_sequential
            [of "example_env\<lparr>Listen_err := (\<lambda>a. Some (External ''address in use''))\<rparr>"]
          bootstrap_sequential [of example_env] f0 f1 f2
    by (simp add: step_plan_def cctx_Bool_def example_env_def)
qed

end
